theory Spec2Isabelle
  imports Complex_Main "HOL-Library.Char_ord" "HOL-Library.List_Lexorder"
begin

section \<open>Text primitives\<close>

text \<open>
  Python strings are modelled as HOL strings. The model reads query text, column names
  and cell text as ASCII: \<open>str.strip\<close>, \<open>str.upper\<close>, \<open>str.lower\<close> and the regular
  expression classes \<open>\w\<close> and \<open>\d\<close> are given on the ASCII range, where Python's tables
  are fixed; a character above 127 is neither space, letter nor digit here.
\<close>

definition code :: "char \<Rightarrow> nat" where
  "code c = of_char c"

definition isspace :: "char \<Rightarrow> bool" where
  "isspace c = (code c = 32 \<or> (9 \<le> code c \<and> code c \<le> 13) \<or> (28 \<le> code c \<and> code c \<le> 31))"

definition is_upper :: "char \<Rightarrow> bool" where
  "is_upper c = (65 \<le> code c \<and> code c \<le> 90)"

definition is_lower :: "char \<Rightarrow> bool" where
  "is_lower c = (97 \<le> code c \<and> code c \<le> 122)"

definition is_digit :: "char \<Rightarrow> bool" where
  "is_digit c = (48 \<le> code c \<and> code c \<le> 57)"

definition is_alpha :: "char \<Rightarrow> bool" where
  "is_alpha c = (is_upper c \<or> is_lower c)"

text \<open>The class \<open>\w\<close>: letters, digits and the underscore.\<close>

definition is_word :: "char \<Rightarrow> bool" where
  "is_word c = (is_alpha c \<or> is_digit c \<or> c = CHR ''_'')"

definition upper_char :: "char \<Rightarrow> char" where
  "upper_char c = (if is_lower c then char_of (code c - 32) else c)"

definition lower_char :: "char \<Rightarrow> char" where
  "lower_char c = (if is_upper c then char_of (code c + 32) else c)"

definition upper :: "string \<Rightarrow> string" where
  "upper s = map upper_char s"

definition lower :: "string \<Rightarrow> string" where
  "lower s = map lower_char s"

definition strip :: "string \<Rightarrow> string" where
  "strip s = rev (dropWhile isspace (rev (dropWhile isspace s)))"

definition startswith :: "string \<Rightarrow> string \<Rightarrow> bool" where
  "startswith s p = (take (length p) s = p)"

text \<open>\<open>p in s\<close> on strings: \<open>p\<close> occurs in \<open>s\<close> as a contiguous run.\<close>

fun contains :: "string \<Rightarrow> string \<Rightarrow> bool" where
  "contains [] p = (p = [])"
| "contains (c # cs) p = (startswith (c # cs) p \<or> contains cs p)"

section \<open>Query safety classifier (services/database.py)\<close>

text \<open>
  \<open>re.search(rf'\b{keyword}\b', sql_upper)\<close>: the regular expression engine tries every
  start position \<open>i\<close>; the keyword must stand at \<open>i\<close>, with a word boundary before its
  first and after its last character. \<open>\b\<close> holds at a position when exactly one of
  the characters on its two sides is a word character (the ends of the text count as
  non-word).
\<close>

definition word_before :: "string \<Rightarrow> nat \<Rightarrow> bool" where
  "word_before s i = (0 < i \<and> i \<le> length s \<and> is_word (s ! (i - 1)))"

definition word_after :: "string \<Rightarrow> nat \<Rightarrow> bool" where
  "word_after s i = (i < length s \<and> is_word (s ! i))"

definition word_boundary :: "string \<Rightarrow> nat \<Rightarrow> bool" where
  "word_boundary s i = (word_before s i \<noteq> word_after s i)"

definition keyword_at :: "string \<Rightarrow> string \<Rightarrow> nat \<Rightarrow> bool" where
  "keyword_at kw s i =
     (word_boundary s i \<and> take (length kw) (drop i s) = kw \<and> word_boundary s (i + length kw))"

definition re_search_word :: "string \<Rightarrow> string \<Rightarrow> bool" where
  "re_search_word kw s = list_ex (keyword_at kw s) [0..<Suc (length s)]"

definition dangerous_keywords :: "string list" where
  "dangerous_keywords =
     [''DROP'', ''DELETE'', ''UPDATE'', ''INSERT'', ''ALTER'', ''CREATE'', ''TRUNCATE'',
      ''EXEC'', ''EXECUTE'']"

definition validate_sql :: "string \<Rightarrow> bool" where
  "validate_sql sql =
     (let sql_upper = upper (strip sql) in
      if list_ex (\<lambda>keyword. re_search_word keyword sql_upper) dangerous_keywords then False
      else if \<not> (startswith sql_upper ''SELECT'' \<or> startswith sql_upper ''WITH'') then False
      else True)"

text \<open>
  The specification's reading of the same test: cut the normalized text into its
  maximal runs of word characters (its tokens) and look the keyword up among them.
\<close>

function word_tokens :: "string \<Rightarrow> string list" where
  "word_tokens [] = []"
| "word_tokens (c # cs) =
     (if is_word c then takeWhile is_word (c # cs) # word_tokens (dropWhile is_word cs)
      else word_tokens cs)"
  by pat_completeness auto
termination
  by (relation "measure length") (auto simp: less_Suc_eq_le length_dropWhile_le)

text \<open>
  A keyword occurs delimited in a text when it stands between the start of the text or a
  non-word character and the end of the text or a non-word character.
\<close>

definition delimited :: "string \<Rightarrow> string \<Rightarrow> bool" where
  "delimited kw s =
     (\<exists>pre post. s = pre @ kw @ post \<and> (pre = [] \<or> \<not> is_word (last pre)) \<and>
        (post = [] \<or> \<not> is_word (hd post)))"

section \<open>Tables\<close>

text \<open>
  A pandas \<open>DataFrame\<close> is an ordered list of named columns over a common row index.
  A column has one of three dtypes: \<open>int64\<close> (no missing value), \<open>float64\<close> (\<open>NaN\<close> is
  the missing value) and \<open>object\<close> (text; \<open>None\<close> is the missing value). The first two
  are what \<open>select_dtypes(include='number')\<close> keeps. Column names are distinct, and every
  column has \<open>nrows\<close> cells, as in every frame built from the rows of a query; numbers
  are exact reals, so rounding in the floating-point unit is not part of the model.
\<close>

datatype series = IntCol "int list" | FloatCol "real option list" | ObjCol "string option list"

record column =
  cname :: string
  cdata :: series

record dataframe =
  columns :: "column list"
  nrows :: nat

fun series_len :: "series \<Rightarrow> nat" where
  "series_len (IntCol xs) = length xs"
| "series_len (FloatCol xs) = length xs"
| "series_len (ObjCol xs) = length xs"

definition wf_df :: "dataframe \<Rightarrow> bool" where
  "wf_df df =
     (distinct (map cname (columns df)) \<and>
      list_all (\<lambda>c. series_len (cdata c) = nrows df) (columns df))"

text \<open>\<open>df.empty\<close>: one of the two axes has length 0.\<close>

definition df_empty :: "dataframe \<Rightarrow> bool" where
  "df_empty df = (nrows df = 0 \<or> columns df = [])"

text \<open>The cells of a numeric column as numbers; \<open>None\<close> for a column of another dtype.\<close>

fun numeric_cells :: "series \<Rightarrow> real option list option" where
  "numeric_cells (IntCol xs) = Some (map (\<lambda>i. Some (real_of_int i)) xs)"
| "numeric_cells (FloatCol xs) = Some xs"
| "numeric_cells (ObjCol xs) = None"

definition is_numeric :: "column \<Rightarrow> bool" where
  "is_numeric c = (numeric_cells (cdata c) \<noteq> None)"

text \<open>\<open>df.select_dtypes(include='number')\<close>: the numeric columns, in the frame's order.\<close>

definition select_number :: "dataframe \<Rightarrow> (string \<times> real option list) list" where
  "select_number df =
     List.map_filter (\<lambda>c. map_option (Pair (cname c)) (numeric_cells (cdata c))) (columns df)"

definition num_cols :: "dataframe \<Rightarrow> string list" where
  "num_cols df = map fst (select_number df)"

definition dropna :: "'a option list \<Rightarrow> 'a list" where
  "dropna cells = List.map_filter id cells"

fun notna :: "series \<Rightarrow> bool list" where
  "notna (IntCol xs) = map (\<lambda>_. True) xs"
| "notna (FloatCol xs) = map (\<lambda>x. x \<noteq> None) xs"
| "notna (ObjCol xs) = map (\<lambda>x. x \<noteq> None) xs"

subsection \<open>Cells as text\<close>

definition digit_char :: "nat \<Rightarrow> char" where
  "digit_char d = char_of (48 + d)"

function str_nat :: "nat \<Rightarrow> string" where
  "str_nat n = (if n < 10 then [digit_char n] else str_nat (n div 10) @ [digit_char (n mod 10)])"
  by pat_completeness auto
termination
  by (relation "measure id") auto

declare str_nat.simps [simp del]

definition str_int :: "int \<Rightarrow> string" where
  "str_int i = (if i < 0 then CHR ''-'' # str_nat (nat (- i)) else str_nat (nat i))"

text \<open>
  What the code takes from its libraries and the model takes as parameters: the text
  Python prints for a float, and whether \<open>pd.to_datetime(values, format='mixed')\<close>
  accepts a column of text (it raises \<open>ValueError\<close> or \<open>TypeError\<close> otherwise).
\<close>

record externals =
  float_str :: "real \<Rightarrow> string"
  to_datetime_ok :: "string list \<Rightarrow> bool"

fun cell_strs :: "externals \<Rightarrow> series \<Rightarrow> string option list" where
  "cell_strs E (IntCol xs) = map (\<lambda>i. Some (str_int i)) xs"
| "cell_strs E (FloatCol xs) = map (map_option (float_str E)) xs"
| "cell_strs E (ObjCol xs) = xs"

fun na_str :: "series \<Rightarrow> string" where
  "na_str (ObjCol xs) = ''None''"
| "na_str s = ''nan''"

text \<open>\<open>series.astype(str)\<close>, and \<open>series.dropna().astype(str)\<close>.\<close>

definition astype_str :: "externals \<Rightarrow> series \<Rightarrow> string list" where
  "astype_str E s = map (\<lambda>x. case x of None \<Rightarrow> na_str s | Some t \<Rightarrow> t) (cell_strs E s)"

definition dropna_str :: "externals \<Rightarrow> series \<Rightarrow> string list" where
  "dropna_str E s = dropna (cell_strs E s)"

section \<open>Statistics and insights (services/analysis.py)\<close>

subsection \<open>\<open>compute_stats\<close>\<close>

definition mean_of :: "real list \<Rightarrow> real" where
  "mean_of xs = sum_list xs / real (length xs)"

text \<open>The pandas median: the middle of the sorted values, or the mean of the two middle ones.\<close>

definition median_of :: "real list \<Rightarrow> real" where
  "median_of xs =
     (let ys = sort xs; n = length ys in
      if odd n then ys ! (n div 2) else (ys ! (n div 2 - 1) + ys ! (n div 2)) / 2)"

text \<open>The pandas standard deviation: of a sample, with \<open>n - 1\<close> in the denominator.\<close>

definition std_of :: "real list \<Rightarrow> real" where
  "std_of xs = sqrt (sum_list (map (\<lambda>x. (x - mean_of xs)\<^sup>2) xs) / real (length xs - 1))"

text \<open>Python's \<open>round\<close>: to the nearest, a tie to the even neighbour.\<close>

definition round_half_even :: "real \<Rightarrow> int" where
  "round_half_even x =
     (let f = \<lfloor>x\<rfloor>; d = x - real_of_int f in
      if d < 1 / 2 then f else if 1 / 2 < d then f + 1 else if even f then f else f + 1)"

definition py_round :: "real \<Rightarrow> nat \<Rightarrow> real" where
  "py_round x ndigits = real_of_int (round_half_even (x * 10 ^ ndigits)) / 10 ^ ndigits"

record col_stats =
  s_mean :: real
  s_median :: real
  s_std :: real
  s_min :: real
  s_max :: real
  s_count :: nat

definition describe :: "real list \<Rightarrow> col_stats" where
  "describe series =
     \<lparr> s_mean = py_round (mean_of series) 2,
       s_median = py_round (median_of series) 2,
       s_std = (if length series > 1 then py_round (std_of series) 2 else 0),
       s_min = py_round (Min (set series)) 2,
       s_max = py_round (Max (set series)) 2,
       s_count = length series \<rparr>"

text \<open>The loop over the numeric columns; the result dictionary keeps insertion order.\<close>

fun stats_loop :: "(string \<times> real option list) list \<Rightarrow> (string \<times> col_stats) list" where
  "stats_loop [] = []"
| "stats_loop ((col, cells) # rest) =
     (let series = dropna cells in
      if length series = 0 then stats_loop rest
      else (col, describe series) # stats_loop rest)"

definition compute_stats :: "dataframe \<Rightarrow> (string \<times> col_stats) list" where
  "compute_stats df =
     (let numeric_df = select_number df in
      if nrows df = 0 \<or> numeric_df = [] then [] else stats_loop numeric_df)"

subsection \<open>\<open>detect_trends\<close>\<close>

text \<open>
  The two half means are \<open>numpy.float64\<close> values, whose division does not raise: a
  division by zero gives an infinity or \<open>nan\<close> (with a warning).
\<close>

datatype np_float = Finite real | PosInf | NegInf | NaN

definition np_div :: "real \<Rightarrow> real \<Rightarrow> np_float" where
  "np_div a b =
     (if b \<noteq> 0 then Finite (a / b)
      else if 0 < a then PosInf else if a < 0 then NegInf else NaN)"

text \<open>\<open>(q - 1) * 100\<close> and \<open>(1 - q) * 100\<close> on such a quotient.\<close>

fun pct_increase :: "np_float \<Rightarrow> np_float" where
  "pct_increase (Finite q) = Finite ((q - 1) * 100)"
| "pct_increase PosInf = PosInf"
| "pct_increase NegInf = NegInf"
| "pct_increase NaN = NaN"

fun pct_decrease :: "np_float \<Rightarrow> np_float" where
  "pct_decrease (Finite q) = Finite ((1 - q) * 100)"
| "pct_decrease PosInf = NegInf"
| "pct_decrease NegInf = PosInf"
| "pct_decrease NaN = NaN"

text \<open>
  An insight is a sentence the code renders with an f-string; the model keeps the
  sentence's kind and the values rendered into it:
  \<^item> \<open>TopContributor cat top num pct\<close>: "\<open>cat\<close> '\<open>top\<close>' contributes the highest \<open>num\<close>
    (\<open>pct\<close>% of total).";
  \<^item> \<open>RangeInsight col lo hi range\<close>: "\<open>col\<close> ranges from \<open>lo\<close> to \<open>hi\<close> (range: \<open>range\<close>).";
  \<^item> \<open>Upward col pct\<close>: "\<open>col\<close> shows an upward trend (increased by \<open>pct\<close>%).";
  \<^item> \<open>Downward col pct\<close>: "\<open>col\<close> shows a downward trend (decreased by \<open>pct\<close>%).";
  \<^item> \<open>Stable col\<close>: "\<open>col\<close> remains relatively stable.";
  \<^item> \<open>DataPoints r c\<close>: "Analysis based on \<open>r\<close> data points across \<open>c\<close> columns.";
  \<^item> \<open>Forecast col v trend r2\<close>: "Predicted next period \<open>col\<close>: \<open>v\<close> (trend: \<open>trend\<close>,
    R2=\<open>r2\<close>)", the message of a prediction.
\<close>

datatype insight =
    TopContributor string string string real
  | RangeInsight string real real real
  | Upward string np_float
  | Downward string np_float
  | Stable string
  | DataPoints nat nat
  | Forecast string real string real

definition trend_of :: "string \<Rightarrow> real list \<Rightarrow> insight" where
  "trend_of col series =
     (let mid = length series div 2;
          first_half = mean_of (take mid series);
          second_half = mean_of (drop mid series) in
      if second_half > first_half * (11 / 10)
        then Upward col (pct_increase (np_div second_half first_half))
      else if second_half < first_half * (9 / 10)
        then Downward col (pct_decrease (np_div second_half first_half))
      else Stable col)"

fun trends_loop :: "(string \<times> real option list) list \<Rightarrow> insight list" where
  "trends_loop [] = []"
| "trends_loop ((col, cells) # rest) =
     (let series = dropna cells in
      if length series < 3 then trends_loop rest
      else trend_of col series # trends_loop rest)"

definition detect_trends :: "dataframe \<Rightarrow> insight list" where
  "detect_trends df = trends_loop (select_number df)"

subsection \<open>\<open>generate_insights\<close>\<close>

text \<open>
  The top contributor: \<open>df.groupby(cat_col)[num_col].sum().sort_values(ascending=False)\<close>.
  Rows with a missing label form no group, a missing number adds nothing to its group's
  sum, and the groups stand in the order of their labels before they are sorted by sum.
  Among groups of equal sum the first in label order is taken for the top one.
\<close>

definition group_sums :: "string option list \<Rightarrow> real option list \<Rightarrow> (string \<times> real) list" where
  "group_sums labels cells =
     map (\<lambda>k. (k, sum_list (map (\<lambda>(l, v). case v of None \<Rightarrow> 0 | Some x \<Rightarrow> x)
                     (filter (\<lambda>(l, v). l = Some k) (zip labels cells)))))
       (sort (remdups (dropna labels)))"

fun first_max :: "string \<times> real \<Rightarrow> (string \<times> real) list \<Rightarrow> string \<times> real" where
  "first_max best [] = best"
| "first_max best (g # gs) = first_max (if snd best < snd g then g else best) gs"

definition non_numeric_cols :: "dataframe \<Rightarrow> column list" where
  "non_numeric_cols df = filter (\<lambda>c. \<not> is_numeric c) (columns df)"

fun top_contributor :: "column list \<Rightarrow> (string \<times> real option list) list \<Rightarrow> insight list" where
  "top_contributor (cat # cats) ((num_col, cells) # nums) =
     (case cdata cat of
        ObjCol labels \<Rightarrow>
          (case group_sums labels cells of
             g # g' # gs \<Rightarrow>
               (let top = first_max g (g' # gs);
                    total = sum_list (map snd (g # g' # gs));
                    pct = (if 0 < total then snd top / total * 100 else 0)
                in [TopContributor (cname cat) (fst top) num_col pct])
           | _ \<Rightarrow> [])
      | _ \<Rightarrow> [])"
| "top_contributor _ _ = []"

text \<open>The range insight: one sentence, for the first entry of the statistics.\<close>

fun range_insight :: "(string \<times> col_stats) list \<Rightarrow> insight list" where
  "range_insight [] = []"
| "range_insight ((col, st) # rest) = [RangeInsight col (s_min st) (s_max st) (s_max st - s_min st)]"

definition generate_insights :: "dataframe \<Rightarrow> (string \<times> col_stats) list \<Rightarrow> insight list" where
  "generate_insights df stats =
     (if df_empty df then []
      else top_contributor (non_numeric_cols df) (select_number df)
           @ range_insight stats
           @ take 2 (detect_trends df)
           @ [DataPoints (nrows df) (length (columns df))])"

section \<open>Chart selection (services/charts.py)\<close>

subsection \<open>The patterns tried with \<open>re.match\<close>\<close>

text \<open>
  \<open>re.match\<close> anchors a pattern at the start of the text. The date patterns are sequences
  of character classes of fixed width: a digit \<open>\d\<close>, or a separator \<open>[-/]\<close>. The
  matcher returns what follows the matched prefix.
\<close>

datatype char_class = Digit | Sep

fun in_class :: "char_class \<Rightarrow> char \<Rightarrow> bool" where
  "in_class Digit c = is_digit c"
| "in_class Sep c = (c = CHR ''-'' \<or> c = CHR ''/'')"

fun match_classes :: "char_class list \<Rightarrow> string \<Rightarrow> string option" where
  "match_classes [] s = Some s"
| "match_classes (k # ks) [] = None"
| "match_classes (k # ks) (c # cs) = (if in_class k c then match_classes ks cs else None)"

text \<open>\<open>^\d{4}$\<close>; the \<open>$\<close> also matches before a final newline.\<close>

definition year_only :: "string \<Rightarrow> bool" where
  "year_only v =
     (case match_classes [Digit, Digit, Digit, Digit] v of
        None \<Rightarrow> False
      | Some rest \<Rightarrow> rest = [] \<or> rest = [CHR 0x0A])"

text \<open>\<open>\d{4}[-/]\d{2}\<close>\<close>

definition year_month :: "string \<Rightarrow> bool" where
  "year_month v = (match_classes [Digit, Digit, Digit, Digit, Sep, Digit, Digit] v \<noteq> None)"

text \<open>\<open>\d{4}[-/]\d{2}[-/]\d{2}\<close>\<close>

definition year_month_day :: "string \<Rightarrow> bool" where
  "year_month_day v =
     (match_classes [Digit, Digit, Digit, Digit, Sep, Digit, Digit, Sep, Digit, Digit] v \<noteq> None)"

text \<open>\<open>\d{2}[-/]\d{2}[-/]\d{4}\<close>\<close>

definition day_month_year :: "string \<Rightarrow> bool" where
  "day_month_year v =
     (match_classes [Digit, Digit, Sep, Digit, Digit, Sep, Digit, Digit, Digit, Digit] v \<noteq> None)"

text \<open>\<open>(?i)^(jan|feb|mar|apr|may|jun|jul|aug|sep|oct|nov|dec)\<close>\<close>

definition month_name :: "string \<Rightarrow> bool" where
  "month_name v =
     (length v \<ge> 3 \<and>
      lower (take 3 v) \<in> set [''jan'', ''feb'', ''mar'', ''apr'', ''may'', ''jun'', ''jul'', ''aug'',
                               ''sep'', ''oct'', ''nov'', ''dec''])"

definition time_patterns :: "(string \<Rightarrow> bool) list" where
  "time_patterns = [year_only, year_month, month_name]"

subsection \<open>\<open>detect_chart_type\<close>\<close>

text \<open>
  Whether the x axis is time-based: the column parses as dates, or else each of its
  first three values matches one of the time patterns.
\<close>

definition is_time :: "externals \<Rightarrow> string list \<Rightarrow> bool" where
  "is_time E x_values =
     (if to_datetime_ok E x_values then True
      else list_all (\<lambda>v. list_ex (\<lambda>p. p v) time_patterns) (take 3 x_values))"

definition detect_chart_type :: "externals \<Rightarrow> dataframe \<Rightarrow> string" where
  "detect_chart_type E df =
     (if df_empty df \<or> length (columns df) < 1 then ''bar''
      else
        let cols = columns df;
            num_cols = num_cols df;
            non_num_cols = filter (\<lambda>c. c \<notin> set num_cols) (map cname cols)
        in
        if length cols = 1 \<and> length num_cols = 1 then ''histogram''
        else
          (case cols of
             x_col # _ # _ \<Rightarrow>
               (let x_values = astype_str E (cdata x_col) in
                if is_time E x_values then ''line''
                else if nrows df \<le> 6 \<and> length num_cols \<ge> 1 \<and> length non_num_cols \<ge> 1
                  then ''pie''
                else if nrows df > 15 then ''line''
                else ''bar'')
           | _ \<Rightarrow> ''bar''))"

subsection \<open>\<open>generate_chart\<close>\<close>

text \<open>
  The figure that \<open>generate_chart\<close> builds before it is rendered: its kind and the columns
  in its roles (the x or category column first). \<open>None\<close> stands for the paths on which
  the function returns the empty string without a figure.
\<close>

datatype figure =
    HistogramFig string
  | PieFig string string
  | LineFig string "string list"
  | ScatterFig string string
  | BarFig string "string list"

definition build_figure :: "dataframe \<Rightarrow> string \<Rightarrow> figure option" where
  "build_figure df chart_type =
     (let cols = map cname (columns df);
          num_cols = num_cols df
      in
      if chart_type = ''histogram'' \<and> length num_cols \<ge> 1 then
        Some (HistogramFig (num_cols ! 0))
      else if chart_type = ''pie'' \<and> length cols \<ge> 2 then
        (let x_col = cols ! 0;
             y_col = (if num_cols \<noteq> [] then num_cols ! 0 else cols ! 1)
         in Some (PieFig x_col y_col))
      else if chart_type = ''line'' \<and> length cols \<ge> 2 \<and> length num_cols \<ge> 1 then
        (let x_col = cols ! 0;
             y_cols = (if cols ! 0 \<notin> set num_cols then num_cols else num_cols)
         in Some (LineFig x_col (take 5 y_cols)))
      else if chart_type = ''scatter'' \<and> length num_cols \<ge> 2 then
        Some (ScatterFig (num_cols ! 0) (num_cols ! 1))
      else if length cols \<ge> 2 then
        (let x_col = cols ! 0;
             y_cols = (if num_cols \<noteq> [] then num_cols else [cols ! 1])
         in Some (BarFig x_col (take 5 y_cols)))
      else None)"

text \<open>
  Rendering (plotly, then base64) is a parameter: it gives the encoded image, or \<open>None\<close>
  when it raises, which the function turns into the empty string.
\<close>

definition generate_chart ::
  "externals \<Rightarrow> (figure \<Rightarrow> string option) \<Rightarrow> dataframe \<Rightarrow> string option \<Rightarrow> string" where
  "generate_chart E render_png df chart_type =
     (if df_empty df \<or> length (columns df) < 1 then []
      else
        let chart_type' = (case chart_type of None \<Rightarrow> detect_chart_type E df | Some t \<Rightarrow> t) in
        case build_figure df chart_type' of
          None \<Rightarrow> []
        | Some fig \<Rightarrow> (case render_png fig of None \<Rightarrow> [] | Some png \<Rightarrow> png))"

section \<open>Forecasting (services/prediction.py)\<close>

subsection \<open>\<open>detect_time_column\<close>\<close>

definition date_patterns :: "(string \<Rightarrow> bool) list" where
  "date_patterns = [year_month_day, day_month_year, year_month, year_only]"

text \<open>
  The first loop: a column is taken when at least 70 percent of its sample (the first
  ten non-missing values, as text) match a date pattern.
\<close>

fun scan_time_columns :: "externals \<Rightarrow> column list \<Rightarrow> string option" where
  "scan_time_columns E [] = None"
| "scan_time_columns E (col # rest) =
     (let sample = take 10 (dropna_str E (cdata col));
          matches = length (filter (\<lambda>v. list_ex (\<lambda>p. p v) date_patterns) sample)
      in
      if real matches \<ge> real (length sample) * (7 / 10) then Some (cname col)
      else scan_time_columns E rest)"

definition time_keywords :: "string list" where
  "time_keywords = [''date'', ''time'', ''year'', ''month'', ''day'', ''period'', ''quarter'']"

definition detect_time_column :: "externals \<Rightarrow> dataframe \<Rightarrow> string option" where
  "detect_time_column E df =
     (case scan_time_columns E (columns df) of
        Some col \<Rightarrow> Some col
      | None \<Rightarrow>
          map_option cname
            (find (\<lambda>col. list_ex (\<lambda>kw. contains (lower (cname col)) kw) time_keywords)
               (columns df)))"

subsection \<open>\<open>detect_target_column\<close>\<close>

definition replace_underscores :: "string \<Rightarrow> string" where
  "replace_underscores s = map (\<lambda>c. if c = CHR ''_'' then CHR '' '' else c) s"

definition detect_target_column :: "dataframe \<Rightarrow> string \<Rightarrow> string option" where
  "detect_target_column df question =
     (let numeric_cols = num_cols df in
      if numeric_cols = [] then None
      else
        let question_lower = lower question in
        case find (\<lambda>col. contains question_lower (lower (replace_underscores col)) \<or>
                         contains question_lower (lower col)) numeric_cols of
          Some col \<Rightarrow> Some col
        | None \<Rightarrow> Some (numeric_cols ! 0))"

subsection \<open>\<open>predict\<close>\<close>

text \<open>
  \<open>LinearRegression().fit(X, y)\<close> with \<open>X = arange(n)\<close> is modelled by the closed form of
  the least-squares line through the points \<open>(i, y i)\<close>, and \<open>r2_score\<close> by its definition;
  when the observed values do not vary, \<open>r2_score\<close> gives 1 for an exact fit and 0
  otherwise. A model is the pair of the slope \<open>coef_[0]\<close> and the intercept.
\<close>

definition fit_line :: "real list \<Rightarrow> real \<times> real" where
  "fit_line y =
     (let n = length y;
          x_mean = sum_list (map real [0..<n]) / real n;
          y_mean = sum_list y / real n;
          coef = sum_list (map (\<lambda>i. (real i - x_mean) * (y ! i - y_mean)) [0..<n])
                 / sum_list (map (\<lambda>i. (real i - x_mean)\<^sup>2) [0..<n])
      in (coef, y_mean - coef * x_mean))"

definition model_predict :: "real \<times> real \<Rightarrow> nat \<Rightarrow> real" where
  "model_predict model i = snd model + fst model * real i"

definition r2_score :: "real list \<Rightarrow> real list \<Rightarrow> real" where
  "r2_score y y_pred =
     (let ss_res = sum_list (map (\<lambda>(a, p). (a - p)\<^sup>2) (zip y y_pred));
          y_mean = sum_list y / real (length y);
          ss_tot = sum_list (map (\<lambda>a. (a - y_mean)\<^sup>2) y)
      in if ss_tot = 0 then (if ss_res = 0 then 1 else 0) else 1 - ss_res / ss_tot)"

text \<open>\<open>str.title\<close>: a letter is upper-cased after a non-letter and lower-cased after a letter.\<close>

fun title_scan :: "bool \<Rightarrow> string \<Rightarrow> string" where
  "title_scan prev [] = []"
| "title_scan prev (c # cs) =
     (if is_alpha c then (if prev then lower_char c else upper_char c) # title_scan True cs
      else c # title_scan False cs)"

definition title :: "string \<Rightarrow> string" where
  "title s = title_scan False s"

text \<open>
  The failures of \<open>predict\<close>, by their messages: no time column, no numeric column, not
  enough data points, and \<open>Prediction failed\<close> for an exception caught at the top level.
\<close>

datatype predict_error = NoTimeColumn | NoNumericColumn | NotEnoughData | PredictionFailed

record forecast =
  predicted_value :: real
  metric :: string
  confidence :: real
  trend :: string
  message :: insight

definition lookup_col :: "dataframe \<Rightarrow> string \<Rightarrow> column option" where
  "lookup_col df col = find (\<lambda>c. cname c = col) (columns df)"

text \<open>\<open>df[[time_col, target_col]].dropna()\<close>: the rows in which both cells are present.\<close>

definition paired_rows :: "series \<Rightarrow> series \<Rightarrow> nat list" where
  "paired_rows t y =
     filter (\<lambda>i. notna t ! i \<and> notna y ! i) [0..<min (series_len t) (series_len y)]"

text \<open>
  When the time column is also the target (a numeric year column, say), the selection
  has the column twice, \<open>pred_df[target_col]\<close> is a frame of two columns and the
  conversion of the two predictions to one float raises; the exception is caught at the
  top level. A target that is not numeric cannot be converted either.
\<close>

definition predict :: "externals \<Rightarrow> dataframe \<Rightarrow> string \<Rightarrow> predict_error + forecast" where
  "predict E df question =
     (case detect_time_column E df of
        None \<Rightarrow> Inl NoTimeColumn
      | Some time_col \<Rightarrow>
          (case detect_target_column df question of
             None \<Rightarrow> Inl NoNumericColumn
           | Some target_col \<Rightarrow>
               (case (lookup_col df time_col, lookup_col df target_col) of
                  (Some t, Some tg) \<Rightarrow>
                    (let rows = paired_rows (cdata t) (cdata tg) in
                     if length rows < 3 then Inl NotEnoughData
                     else if time_col = target_col then Inl PredictionFailed
                     else
                       (case numeric_cells (cdata tg) of
                          None \<Rightarrow> Inl PredictionFailed
                        | Some cells \<Rightarrow>
                            (let y = dropna (map (\<lambda>i. cells ! i) rows);
                                 model = fit_line y;
                                 pv = model_predict model (length y);
                                 y_pred = map (model_predict model) [0..<length y];
                                 r2 = r2_score y y_pred;
                                 slope = fst model;
                                 tr = (if slope > 0 then ''upward''
                                       else if slope < 0 then ''downward'' else ''stable'')
                             in Inr \<lparr> predicted_value = py_round pv 2,
                                      metric = title (replace_underscores target_col),
                                      confidence = py_round r2 4,
                                      trend = tr,
                                      message = Forecast (replace_underscores target_col) pv tr r2 \<rparr>)))
                | _ \<Rightarrow> Inl PredictionFailed)))"

section \<open>The analysis pipeline (main.py)\<close>

text \<open>
  The services around the engine are parameters: the translation of the question into
  SQL (it may raise), the SQLite run of a validated query (rows, or the text of the
  database error), the renderer, and the load of the full table \<open>data\<close>
  (\<open>pd.read_sql("SELECT * FROM data", ...)\<close>; it may raise). The rows of a query are
  kept as the frame that \<open>pd.DataFrame(table_result)\<close> makes of them.
\<close>

datatype exn = ValueError string | OtherError string

record request =
  question :: string
  db_path :: string
  schema_text :: string
  sample_rows :: string

record services =
  nl_to_sql :: "request \<Rightarrow> exn + string"
  run_sql :: "string \<Rightarrow> string \<Rightarrow> string + dataframe"
  render :: "figure \<Rightarrow> string option"
  read_full :: "string \<Rightarrow> string + dataframe"

text \<open>\<open>HTTPException(status_code, detail)\<close>\<close>

datatype http_error = HTTPException nat string

definition execute_query :: "services \<Rightarrow> string \<Rightarrow> string \<Rightarrow> string + dataframe" where
  "execute_query S path sql =
     (if \<not> validate_sql sql then
        Inl ''Only SELECT queries are allowed. Destructive operations are blocked.''
      else
        case run_sql S path sql of
          Inl e \<Rightarrow> Inl (''SQL execution error: '' @ e)
        | Inr rows \<Rightarrow> Inr rows)"

text \<open>
  The \<open>prediction\<close> field of the response: the empty dictionary, the dictionary that
  \<open>predict\<close> returned, or the error dictionary written when loading the full table raised.
\<close>

datatype prediction_field = NoPrediction | Predicted "predict_error + forecast" | LoadError string

record analysis =
  sql_query :: string
  table_result :: dataframe
  chart_base64 :: string
  stats :: "(string \<times> col_stats) list"
  insights :: "insight list"
  prediction :: prediction_field

definition prediction_keywords :: "string list" where
  "prediction_keywords =
     [''predict'', ''forecast'', ''next month'', ''next quarter'', ''next year'', ''future'',
      ''estimate'']"

definition wants_prediction :: "string \<Rightarrow> bool" where
  "wants_prediction q = list_ex (\<lambda>kw. contains (lower q) kw) prediction_keywords"

text \<open>
  Steps 3 to 5 run when the query returned rows; each swallows its own failure.
\<close>

definition steps_3_to_5 :: "externals \<Rightarrow> services \<Rightarrow> analysis \<Rightarrow> analysis" where
  "steps_3_to_5 E S r =
     (if nrows (table_result r) > 0 then
        let df = table_result r;
            r1 = r\<lparr>chart_base64 := generate_chart E (render S) df None\<rparr>;
            r2 = r1\<lparr>stats := compute_stats df\<rparr>;
            r3 = r2\<lparr>insights := generate_insights df (stats r2)\<rparr>
        in r3
      else r)"

text \<open>
  Step 6. The truth value of \<open>pred.get("predicted_value")\<close> is that of a number or of
  \<open>None\<close>: false for a failure and for the number zero.
\<close>

definition step_6 :: "externals \<Rightarrow> services \<Rightarrow> request \<Rightarrow> analysis \<Rightarrow> analysis" where
  "step_6 E S req r =
     (if wants_prediction (question req) then
        (case read_full S (db_path req) of
           Inl e \<Rightarrow> r\<lparr>prediction := LoadError e\<rparr>
         | Inr full_df \<Rightarrow>
             (let pred = predict E full_df (question req);
                  r1 = r\<lparr>prediction := Predicted pred\<rparr>
              in case pred of
                   Inl e \<Rightarrow> r1
                 | Inr f \<Rightarrow>
                     if predicted_value f \<noteq> 0 then r1\<lparr>insights := insights r1 @ [message f]\<rparr>
                     else r1))
      else r)"

definition analyze_data :: "externals \<Rightarrow> services \<Rightarrow> request \<Rightarrow> http_error + analysis" where
  "analyze_data E S req =
     (let result = \<lparr> sql_query = [], table_result = \<lparr>columns = [], nrows = 0\<rparr>,
                      chart_base64 = [], stats = [], insights = [], prediction = NoPrediction \<rparr>
      in
      case nl_to_sql S req of
        Inl (ValueError e) \<Rightarrow> Inl (HTTPException 400 e)
      | Inl (OtherError e) \<Rightarrow> Inl (HTTPException 500 (''Analysis failed: '' @ e))
      | Inr query \<Rightarrow>
          if \<not> validate_sql query then
            Inl (HTTPException 400
              ''Generated SQL contains unsafe operations. Only SELECT queries are allowed.'')
          else
            (case execute_query S (db_path req) query of
               Inl e \<Rightarrow> Inl (HTTPException 400 e)
             | Inr rows \<Rightarrow>
                 Inr (step_6 E S req
                        (steps_3_to_5 E S (result\<lparr>sql_query := query, table_result := rows\<rparr>)))))"


section \<open>Example inputs\<close>

text \<open>Externals for which no text parses as a date, and four months of sales.\<close>

definition plain_externals :: externals where
  "plain_externals = \<lparr>float_str = (\<lambda>r. ''0.0''), to_datetime_ok = (\<lambda>vs. False)\<rparr>"

definition monthly_sales :: dataframe where
  "monthly_sales =
     \<lparr>columns = [\<lparr>cname = ''month'',
                   cdata = ObjCol [Some ''2024-01'', Some ''2024-02'', Some ''2024-03'',
                                   Some ''2024-04'']\<rparr>,
                 \<lparr>cname = ''sales'', cdata = IntCol [10, 20, 30, 40]\<rparr>],
      nrows = 4\<rparr>"

text \<open>
  A table without a date column; a query result of one row; services that translate
  every question into \<open>SELECT * FROM data\<close>, answer it with the given rows and load the
  given full table; and a request that asks for a prediction.
\<close>

definition product_sales :: dataframe where
  "product_sales =
     \<lparr>columns = [\<lparr>cname = ''product'', cdata = ObjCol [Some ''pen'', Some ''ink'', Some ''pad'']\<rparr>,
                 \<lparr>cname = ''sales'', cdata = IntCol [4, 9, 6]\<rparr>],
      nrows = 3\<rparr>"

definition one_row :: dataframe where
  "one_row = \<lparr>columns = [\<lparr>cname = ''product'', cdata = ObjCol [Some ''pen'']\<rparr>], nrows = 1\<rparr>"

definition example_services :: "dataframe \<Rightarrow> dataframe \<Rightarrow> services" where
  "example_services rows full_df =
     \<lparr>nl_to_sql = (\<lambda>r. Inr ''SELECT * FROM data''),
      run_sql = (\<lambda>path sql. Inr rows),
      render = (\<lambda>fig. None),
      read_full = (\<lambda>path. Inr full_df)\<rparr>"

definition example_request :: request where
  "example_request =
     \<lparr>question = ''predict sales'', db_path = ''uploads/sales.db'', schema_text = [],
      sample_rows = []\<rparr>"

section \<open>Properties of the query safety classifier\<close>

lemma word_tokens_are_words:
  "t \<in> set (word_tokens s) \<Longrightarrow> t \<noteq> [] \<and> list_all is_word t"
proof (induction s rule: word_tokens.induct)
  case 1
  then show ?case by simp
next
  case (2 c cs)
  show ?case
  proof (cases "is_word c")
    case True
    with 2 show ?thesis
      by (auto simp: list_all_iff dest: set_takeWhileD)
  next
    case False
    with 2 show ?thesis by simp
  qed
qed

lemma token_is_delimited:
  "t \<in> set (word_tokens s) \<Longrightarrow> delimited t s"
proof (induction s rule: word_tokens.induct)
  case 1
  then show ?case by simp
next
  case (2 c cs)
  show ?case
  proof (cases "is_word c")
    case True
    from 2(3) True consider (first) "t = takeWhile is_word (c # cs)"
      | (later) "t \<in> set (word_tokens (dropWhile is_word cs))"
      by auto
    then show ?thesis
    proof cases
      case first
      have "c # cs = [] @ t @ dropWhile is_word (c # cs)"
        using first by simp
      moreover have "dropWhile is_word (c # cs) = [] \<or> \<not> is_word (hd (dropWhile is_word (c # cs)))"
        using hd_dropWhile [of is_word "c # cs"] by blast
      ultimately show ?thesis
        unfolding delimited_def by blast
    next
      case later
      from 2(1) [OF True later] obtain pre post where
        d: "dropWhile is_word cs = pre @ t @ post" "pre = [] \<or> \<not> is_word (last pre)"
           "post = [] \<or> \<not> is_word (hd post)"
        unfolding delimited_def by blast
      from word_tokens_are_words [OF later] have t: "t \<noteq> []" "is_word (hd t)"
        by (cases t; simp)+
      have ne: "dropWhile is_word cs \<noteq> []" using d(1) t(1) by simp
      have "\<not> is_word (hd (dropWhile is_word cs))"
        using hd_dropWhile [OF ne] .
      with d(1) t have pre: "pre \<noteq> []" by (cases pre) auto
      have "c # cs = (c # takeWhile is_word cs @ pre) @ t @ post"
        using d(1) takeWhile_dropWhile_id [of is_word cs] by (metis append.assoc append_Cons)
      moreover have "\<not> is_word (last (c # takeWhile is_word cs @ pre))"
        using pre d(2) by simp
      ultimately show ?thesis
        unfolding delimited_def using d(3) by blast
    qed
  next
    case False
    with 2(3) have "t \<in> set (word_tokens cs)" by simp
    from 2(2) [OF False this] obtain pre post where
      d: "cs = pre @ t @ post" "pre = [] \<or> \<not> is_word (last pre)"
         "post = [] \<or> \<not> is_word (hd post)"
      unfolding delimited_def by blast
    have "c # cs = (c # pre) @ t @ post" using d(1) by simp
    moreover have "\<not> is_word (last (c # pre))" using d(2) False by auto
    ultimately show ?thesis
      unfolding delimited_def using d(3) by blast
  qed
qed

lemma takeWhile_word_run:
  assumes "list_all is_word t" "post = [] \<or> \<not> is_word (hd post)"
  shows "takeWhile is_word (t @ post) = t"
proof -
  have "takeWhile is_word post = []" using assms(2) by (cases post) auto
  moreover have "takeWhile is_word (t @ post) = t @ takeWhile is_word post"
    using assms(1) by (intro takeWhile_append2) (simp add: list_all_iff)
  ultimately show ?thesis by simp
qed

lemma delimited_is_token_aux:
  assumes "t \<noteq> []" "list_all is_word t" "post = [] \<or> \<not> is_word (hd post)"
  shows "pre = [] \<or> \<not> is_word (last pre) \<Longrightarrow> t \<in> set (word_tokens (pre @ t @ post))"
proof (induction pre rule: word_tokens.induct)
  case 1
  from assms obtain k ks where t: "t = k # ks" "is_word k" by (cases t) auto
  have "takeWhile is_word (t @ post) = t" using takeWhile_word_run [OF assms(2,3)] .
  then show ?case using t by simp
next
  case (2 c cs)
  show ?case
  proof (cases "is_word c")
    case True
    with 2(3) have cs: "cs \<noteq> []" "\<not> is_word (last cs)" by (auto split: if_splits)
    then have ex: "\<exists>x\<in>set cs. \<not> is_word x" using last_in_set by blast
    then obtain x where "x \<in> set cs" "\<not> is_word x" by blast
    then have dw: "dropWhile is_word (cs @ t @ post) = dropWhile is_word cs @ t @ post"
      by (rule dropWhile_append1)
    from ex have ne: "dropWhile is_word cs \<noteq> []" by simp
    have "last (dropWhile is_word cs) = last cs"
      using ne by (metis last_appendR takeWhile_dropWhile_id)
    with cs ne have "dropWhile is_word cs = [] \<or> \<not> is_word (last (dropWhile is_word cs))" by simp
    from 2(1) [OF True this] show ?thesis using True dw by simp
  next
    case False
    from 2(3) have "cs = [] \<or> \<not> is_word (last cs)" by (auto split: if_splits)
    from 2(2) [OF False this] show ?thesis using False by simp
  qed
qed

lemma delimited_iff_token:
  assumes "kw \<noteq> []" "list_all is_word kw"
  shows "delimited kw s \<longleftrightarrow> kw \<in> set (word_tokens s)"
proof
  assume "delimited kw s"
  then obtain pre post where "s = pre @ kw @ post" "pre = [] \<or> \<not> is_word (last pre)"
    "post = [] \<or> \<not> is_word (hd post)" unfolding delimited_def by blast
  then show "kw \<in> set (word_tokens s)"
    using delimited_is_token_aux [OF assms] by blast
next
  assume "kw \<in> set (word_tokens s)"
  then show "delimited kw s" by (rule token_is_delimited)
qed


lemma keyword_at_delimited:
  assumes kw: "kw \<noteq> []" "list_all is_word kw" and at: "keyword_at kw s i"
  shows "delimited kw s"
proof -
  let ?n = "length kw"
  from at have b1: "word_boundary s i" and tk: "take ?n (drop i s) = kw"
    and b2: "word_boundary s (i + ?n)" unfolding keyword_at_def by auto
  from kw(1) have n0: "0 < ?n" by simp
  from tk have "length (take ?n (drop i s)) = ?n" by simp
  then have "min ?n (length s - i) = ?n" by simp
  with n0 have len: "i + ?n \<le> length s" by arith
  from len n0 have ilt: "i < length s" and jpos: "0 < i + ?n" by arith+
  have s: "s = take i s @ kw @ drop (i + ?n) s"
  proof -
    have "drop i s = take ?n (drop i s) @ drop ?n (drop i s)"
      by (rule append_take_drop_id [symmetric])
    also have "\<dots> = kw @ drop (i + ?n) s" using tk by (simp add: add.commute)
    finally have "take i s @ drop i s = take i s @ kw @ drop (i + ?n) s" by simp
    then show ?thesis by simp
  qed
  have si: "s ! i = hd kw"
  proof -
    have "s ! i = drop i s ! 0" using len n0 by simp
    also have "\<dots> = take ?n (drop i s) ! 0" using n0 by simp
    also have "\<dots> = hd kw" using tk kw(1) by (simp add: hd_conv_nth)
    finally show ?thesis .
  qed
  have sl: "s ! (i + ?n - 1) = last kw"
  proof -
    have "last kw = kw ! (?n - 1)" using kw(1) by (simp add: last_conv_nth)
    also have "\<dots> = take ?n (drop i s) ! (?n - 1)" using tk by simp
    also have "\<dots> = drop i s ! (?n - 1)" using n0 by simp
    also have "\<dots> = s ! (i + (?n - 1))" using len by simp
    finally show ?thesis using n0 by simp
  qed
  have "is_word (hd kw)" using kw by (cases kw) auto
  then have "word_after s i" using si ilt by (simp add: word_after_def)
  with b1 have "\<not> word_before s i" by (simp add: word_boundary_def)
  have pre: "take i s = [] \<or> \<not> is_word (last (take i s))"
  proof (cases "i = 0")
    case True
    then show ?thesis by simp
  next
    case False
    then have "take i s \<noteq> []" using ilt by auto
    then have "last (take i s) = take i s ! (i - 1)"
      using ilt by (simp add: last_conv_nth min_def)
    also have "\<dots> = s ! (i - 1)" using False by simp
    finally show ?thesis using \<open>\<not> word_before s i\<close> False ilt
      by (simp add: word_before_def)
  qed
  have "is_word (last kw)" using kw by (cases kw rule: rev_cases) auto
  then have "word_before s (i + ?n)" using sl len jpos by (simp add: word_before_def)
  with b2 have "\<not> word_after s (i + ?n)" by (simp add: word_boundary_def)
  then have post: "drop (i + ?n) s = [] \<or> \<not> is_word (hd (drop (i + ?n) s))"
    by (cases "i + ?n < length s") (auto simp: word_after_def hd_drop_conv_nth)
  from s pre post show ?thesis unfolding delimited_def by blast
qed

lemma delimited_keyword_at:
  assumes kw: "kw \<noteq> []" "list_all is_word kw"
    and s: "s = pre @ kw @ post" and pre: "pre = [] \<or> \<not> is_word (last pre)"
    and post: "post = [] \<or> \<not> is_word (hd post)"
  shows "keyword_at kw s (length pre)"
proof -
  let ?i = "length pre" and ?n = "length kw"
  from kw(1) have n0: "0 < ?n" by simp
  from s n0 have ilt: "?i < length s" and jpos: "0 < ?i + ?n" and len: "?i + ?n \<le> length s"
    by simp_all
  have tk: "take ?n (drop ?i s) = kw" using s by simp
  have si: "s ! ?i = hd kw" using s kw(1) by (simp add: nth_append hd_conv_nth)
  have "is_word (hd kw)" using kw by (cases kw) auto
  then have wa: "word_after s ?i" using si ilt by (simp add: word_after_def)
  have wb: "\<not> word_before s ?i"
  proof (cases "pre = []")
    case True
    then show ?thesis by (simp add: word_before_def)
  next
    case False
    then have "s ! (?i - 1) = last pre" using s by (simp add: nth_append last_conv_nth)
    with pre False show ?thesis by (simp add: word_before_def)
  qed
  have sl: "s ! (?i + ?n - 1) = last kw"
  proof -
    have "?i + ?n - 1 = ?i + (?n - 1)" using n0 by arith
    then have "s ! (?i + ?n - 1) = (kw @ post) ! (?n - 1)" using s by simp
    also have "\<dots> = kw ! (?n - 1)" using n0 by (simp add: nth_append)
    finally show ?thesis using kw(1) by (simp add: last_conv_nth)
  qed
  have "is_word (last kw)" using kw by (cases kw rule: rev_cases) auto
  then have wb2: "word_before s (?i + ?n)" using sl len jpos by (simp add: word_before_def)
  have wa2: "\<not> word_after s (?i + ?n)"
  proof (cases "post = []")
    case True
    then show ?thesis using s by (simp add: word_after_def)
  next
    case False
    then have "s ! (?i + ?n) = hd post" using s by (simp add: nth_append hd_conv_nth)
    with post False show ?thesis by (simp add: word_after_def)
  qed
  show ?thesis
    unfolding keyword_at_def word_boundary_def using wa wb wb2 wa2 tk by simp
qed

lemma re_search_word_iff_delimited:
  assumes kw: "kw \<noteq> []" "list_all is_word kw"
  shows "re_search_word kw s \<longleftrightarrow> delimited kw s"
proof
  assume "re_search_word kw s"
  then obtain i where "keyword_at kw s i"
    unfolding re_search_word_def list_ex_iff by blast
  then show "delimited kw s" by (rule keyword_at_delimited [OF kw])
next
  assume "delimited kw s"
  then obtain pre post where d: "s = pre @ kw @ post" "pre = [] \<or> \<not> is_word (last pre)"
    "post = [] \<or> \<not> is_word (hd post)" unfolding delimited_def by blast
  have "keyword_at kw s (length pre)" by (rule delimited_keyword_at [OF kw d])
  moreover have "length pre \<in> set [0..<Suc (length s)]" using d(1) by simp
  ultimately show "re_search_word kw s"
    unfolding re_search_word_def list_ex_iff by blast
qed

lemma dangerous_keywords_are_words:
  "kw \<in> set dangerous_keywords \<Longrightarrow> kw \<noteq> [] \<and> list_all is_word kw"
  unfolding dangerous_keywords_def
  by (auto simp: is_word_def is_alpha_def is_upper_def code_def)

lemma re_search_dangerous:
  "kw \<in> set dangerous_keywords \<Longrightarrow> re_search_word kw s \<longleftrightarrow> kw \<in> set (word_tokens s)"
  using dangerous_keywords_are_words [of kw]
  by (simp add: re_search_word_iff_delimited delimited_iff_token)

lemma validate_sql_tokens:
  "validate_sql sql \<longleftrightarrow>
     (startswith (upper (strip sql)) ''SELECT'' \<or> startswith (upper (strip sql)) ''WITH'') \<and>
     (\<forall>kw \<in> set dangerous_keywords. kw \<notin> set (word_tokens (upper (strip sql))))"
  unfolding validate_sql_def Let_def list_ex_iff
  using re_search_dangerous [of _ "upper (strip sql)"] by auto

lemma select_all_is_safe: "validate_sql ''SELECT * FROM data''"
  by (subst validate_sql_tokens) code_simp



section \<open>Properties of the statistics\<close>

lemma round_half_even_mono: "x \<le> y \<Longrightarrow> round_half_even x \<le> round_half_even y"
proof -
  assume xy: "x \<le> y"
  have fx: "\<lfloor>x\<rfloor> \<le> round_half_even x" "round_half_even x \<le> \<lfloor>x\<rfloor> + 1" for x
    by (simp_all add: round_half_even_def Let_def)
  show ?thesis
  proof (cases "\<lfloor>x\<rfloor> = \<lfloor>y\<rfloor>")
    case True
    then show ?thesis using xy by (auto simp: round_half_even_def Let_def)
  next
    case False
    with xy have "\<lfloor>x\<rfloor> + 1 \<le> \<lfloor>y\<rfloor>" using floor_mono [OF xy] by linarith
    with fx(2) [of x] fx(1) [of y] show ?thesis by linarith
  qed
qed

lemma py_round_mono: "x \<le> y \<Longrightarrow> py_round x n \<le> py_round y n"
proof -
  assume "x \<le> y"
  then have "x * 10 ^ n \<le> y * 10 ^ n" by (simp add: mult_right_mono)
  then have "round_half_even (x * 10 ^ n) \<le> round_half_even (y * 10 ^ n)"
    by (rule round_half_even_mono)
  then show ?thesis by (simp add: py_round_def divide_right_mono)
qed

lemma py_round_zero: "py_round 0 n = 0"
  by (simp add: py_round_def round_half_even_def)

lemma py_round_nonneg: "0 \<le> x \<Longrightarrow> 0 \<le> py_round x n"
  using py_round_mono [of 0 x n] by (simp add: py_round_zero)

lemma py_round_two_decimals: "py_round x 2 * 100 \<in> \<int>"
  by (simp add: py_round_def)

lemma std_of_nonneg: "0 \<le> std_of xs"
  unfolding std_of_def by (intro real_sqrt_ge_zero divide_nonneg_nonneg sum_list_nonneg) auto

lemma in_range: "xs \<noteq> [] \<Longrightarrow> x \<in> set xs \<Longrightarrow> Min (set xs) \<le> x \<and> x \<le> Max (set xs)"
  by simp

lemma median_between:
  assumes "xs \<noteq> []"
  shows "Min (set xs) \<le> median_of xs \<and> median_of xs \<le> Max (set xs)"
proof -
  let ?ys = "sort xs" and ?n = "length xs"
  have n: "0 < ?n" using assms by simp
  have el: "Min (set xs) \<le> ?ys ! i \<and> ?ys ! i \<le> Max (set xs)" if "i < ?n" for i
  proof -
    have "?ys ! i \<in> set ?ys" using that by (intro nth_mem) simp
    then have "?ys ! i \<in> set xs" by simp
    then show ?thesis using assms by simp
  qed
  show ?thesis
  proof (cases "odd ?n")
    case True
    have "?n div 2 < ?n" using n by simp
    from el [OF this] True show ?thesis by (simp add: median_of_def Let_def)
  next
    case False
    have "?n \<noteq> 1" using False by auto
    with n have "2 \<le> ?n" by arith
    then have "?n div 2 - 1 < ?n" "?n div 2 < ?n" by auto
    from el [OF this(1)] el [OF this(2)] False show ?thesis
      by (simp add: median_of_def Let_def field_simps)
  qed
qed

lemma describe_props:
  assumes "series \<noteq> []"
  shows "s_min (describe series) \<le> s_median (describe series)"
    and "s_median (describe series) \<le> s_max (describe series)"
    and "0 \<le> s_std (describe series)"
    and "s_mean (describe series) * 100 \<in> \<int>" and "s_median (describe series) * 100 \<in> \<int>"
    and "s_std (describe series) * 100 \<in> \<int>"
    and "s_min (describe series) * 100 \<in> \<int>" and "s_max (describe series) * 100 \<in> \<int>"
    and "1 \<le> s_count (describe series)"
    and "s_count (describe series) < 2 \<longrightarrow> s_std (describe series) = 0"
  using median_between [OF assms] assms
  by (auto simp: describe_def py_round_mono py_round_two_decimals py_round_nonneg std_of_nonneg
      Suc_le_eq)

lemma stats_loop_entry:
  "(col, st) \<in> set (stats_loop nd) \<longleftrightarrow>
     (\<exists>cells. (col, cells) \<in> set nd \<and> dropna cells \<noteq> [] \<and> st = describe (dropna cells))"
  by (induction nd rule: stats_loop.induct) (auto simp: Let_def)

lemma compute_stats_entry:
  "(col, st) \<in> set (compute_stats df) \<longleftrightarrow>
     nrows df \<noteq> 0 \<and>
     (\<exists>cells. (col, cells) \<in> set (select_number df) \<and> dropna cells \<noteq> [] \<and>
        st = describe (dropna cells))"
  by (auto simp: compute_stats_def Let_def stats_loop_entry)

text \<open>
  Claim C9. Every entry that \<open>compute_stats\<close> returns belongs to a numeric column with at
  least one non-missing value, and in it the minimum is at most the median, the median at
  most the maximum, the standard deviation is not negative, the five statistics are
  multiples of one hundredth, and the standard deviation is 0 when fewer than two values
  are present.
\<close>

theorem compute_stats_sound:
  assumes "(col, st) \<in> set (compute_stats df)"
  shows "s_min st \<le> s_median st \<and> s_median st \<le> s_max st \<and> 0 \<le> s_std st
    \<and> s_mean st * 100 \<in> \<int> \<and> s_median st * 100 \<in> \<int> \<and> s_std st * 100 \<in> \<int>
    \<and> s_min st * 100 \<in> \<int> \<and> s_max st * 100 \<in> \<int>
    \<and> (s_count st < 2 \<longrightarrow> s_std st = 0)
    \<and> (\<exists>cells. (col, cells) \<in> set (select_number df) \<and> dropna cells \<noteq> []
          \<and> s_count st = length (dropna cells))"
proof -
  from assms obtain cells where c: "(col, cells) \<in> set (select_number df)"
    "dropna cells \<noteq> []" "st = describe (dropna cells)"
    unfolding compute_stats_entry by blast
  have "s_count st = length (dropna cells)" using c(3) by (simp add: describe_def)
  with c describe_props [OF c(2)] show ?thesis by blast
qed

theorem compute_stats_sound_witness:
  "(''sales'', describe [1, 3]) \<in>
     set (compute_stats \<lparr>columns = [\<lparr>cname = ''region'', cdata = ObjCol [Some ''a'', None, Some ''b'']\<rparr>,
                                     \<lparr>cname = ''sales'', cdata = FloatCol [Some 1, None, Some 3]\<rparr>],
                          nrows = 3\<rparr>)
   \<and> s_min (describe [1, 3]) \<le> s_median (describe [1, 3])
   \<and> s_median (describe [1, 3]) \<le> s_max (describe [1, 3])
   \<and> 0 \<le> s_std (describe [1, 3])
   \<and> (''price'', describe [7]) \<in>
     set (compute_stats \<lparr>columns = [\<lparr>cname = ''price'', cdata = FloatCol [None, Some 7]\<rparr>],
                          nrows = 2\<rparr>)
   \<and> s_std (describe [7]) = 0"
proof -
  let ?df = "\<lparr>columns = [\<lparr>cname = ''region'', cdata = ObjCol [Some ''a'', None, Some ''b'']\<rparr>,
                           \<lparr>cname = ''sales'', cdata = FloatCol [Some 1, None, Some 3]\<rparr>],
                nrows = 3\<rparr>"
  let ?one = "\<lparr>columns = [\<lparr>cname = ''price'', cdata = FloatCol [None, Some 7]\<rparr>], nrows = 2\<rparr>"
  have h: "(''sales'', describe [1, 3]) \<in> set (compute_stats ?df)"
    by (simp add: compute_stats_def select_number_def dropna_def)
  have k: "(''price'', describe [7]) \<in> set (compute_stats ?one)"
    by (simp add: compute_stats_def select_number_def dropna_def)
  have c: "s_count (describe [7]) < 2" by (simp add: describe_def)
  from compute_stats_sound [OF k] c have "s_std (describe [7]) = 0" by blast
  with compute_stats_sound [OF h] h k show ?thesis by blast
qed

section \<open>Properties of the insights\<close>

text \<open>
  Claim C3, amended. For a table with at least one row and one column, the list that
  \<open>generate_insights\<close> returns is not empty and ends with the row and column count
  insight; for an empty table the function returns the empty list.
\<close>

theorem generate_insights_last:
  "(df_empty df \<longrightarrow> generate_insights df sts = []) \<and>
   (\<not> df_empty df \<longrightarrow>
      generate_insights df sts \<noteq> [] \<and>
      last (generate_insights df sts) = DataPoints (nrows df) (length (columns df)))"
  by (simp add: generate_insights_def)

text \<open>The claim as stated fails on a table without rows.\<close>

theorem generate_insights_empty_counterexample:
  "\<not> (generate_insights \<lparr>columns = [\<lparr>cname = ''total'', cdata = IntCol []\<rparr>], nrows = 0\<rparr> [] \<noteq> []
      \<and> last (generate_insights \<lparr>columns = [\<lparr>cname = ''total'', cdata = IntCol []\<rparr>], nrows = 0\<rparr> [])
          = DataPoints 0 1)"
  by (simp add: generate_insights_def df_empty_def)

theorem generate_insights_last_witness:
  "\<not> df_empty product_sales
   \<and> generate_insights product_sales (compute_stats product_sales) \<noteq> []
   \<and> last (generate_insights product_sales (compute_stats product_sales)) = DataPoints 3 2
   \<and> df_empty \<lparr>columns = [], nrows = 0\<rparr>
   \<and> generate_insights \<lparr>columns = [], nrows = 0\<rparr> [] = []"
proof -
  let ?none = "\<lparr>columns = [], nrows = 0\<rparr>"
  have ne: "\<not> df_empty product_sales" by (simp add: df_empty_def product_sales_def)
  have e: "df_empty ?none" by (simp add: df_empty_def)
  have sz: "nrows product_sales = 3" "length (columns product_sales) = 2"
    by (simp_all add: product_sales_def)
  from generate_insights_last [of product_sales "compute_stats product_sales"] ne sz
  have "generate_insights product_sales (compute_stats product_sales) \<noteq> []"
    "last (generate_insights product_sales (compute_stats product_sales)) = DataPoints 3 2"
    by simp_all
  moreover from generate_insights_last [of ?none "[]"] e
  have "generate_insights ?none [] = []" by blast
  ultimately show ?thesis using ne e by simp
qed

text \<open>
  A zero first-half mean is not set apart: unless the second-half mean is zero as well,
  one of the two percentage branches is taken and its quotient is infinite.
\<close>

lemma trend_of_zero_first_half:
  assumes "mean_of (take (length series div 2) series) = 0"
    and "mean_of (drop (length series div 2) series) \<noteq> 0"
  shows "trend_of col series = Upward col PosInf \<or> trend_of col series = Downward col PosInf"
  using assms by (auto simp: trend_of_def Let_def np_div_def)

text \<open>
  Claim C4 asks that a numeric column with at least 3 values and a zero first-half mean be
  reported as stable, without a division by that mean. The code departs from it: for the
  column 0, 0, 5, 5 the first-half mean is 0, the second-half mean is 5, and
  \<open>detect_trends\<close> reports an upward trend whose percentage is the result of dividing
  by zero.
\<close>

theorem detect_trends_divides_by_zero:
  "detect_trends \<lparr>columns = [\<lparr>cname = ''x'', cdata = IntCol [0, 0, 5, 5]\<rparr>], nrows = 4\<rparr>
     = [Upward ''x'' PosInf]"
  by (simp add: detect_trends_def select_number_def dropna_def
      trend_of_def mean_of_def np_div_def)

section \<open>Properties of the chart selection\<close>

lemma detect_chart_type_many_rows:
  assumes "columns df = x # y # rest" and "15 < nrows df"
  shows "detect_chart_type E df = ''line''"
  using assms by (simp add: detect_chart_type_def df_empty_def Let_def)

lemma detect_chart_type_single_numeric:
  assumes "columns df = [c]" and "is_numeric c" and "0 < nrows df"
  shows "detect_chart_type E df = ''histogram''"
proof -
  from assms(2) obtain cells where "numeric_cells (cdata c) = Some cells"
    by (auto simp: is_numeric_def)
  then have "num_cols df = [cname c]"
    using assms(1) by (simp add: num_cols_def select_number_def)
  then show ?thesis
    using assms by (simp add: detect_chart_type_def df_empty_def Let_def)
qed

lemma detect_chart_type_small_category:
  assumes "columns df = [x, y]" and "\<not> is_numeric x" and "is_numeric y"
    and "cname x \<noteq> cname y"
    and "0 < nrows df" and "nrows df \<le> 6" and "\<not> is_time E (astype_str E (cdata x))"
  shows "detect_chart_type E df = ''pie''"
proof -
  from assms(3) obtain cells where y: "numeric_cells (cdata y) = Some cells"
    by (auto simp: is_numeric_def)
  from assms(2) have x: "numeric_cells (cdata x) = None"
    by (simp add: is_numeric_def)
  have nc: "num_cols df = [cname y]"
    using assms(1) x y by (simp add: num_cols_def select_number_def)
  show ?thesis
    using assms nc
    by (simp add: detect_chart_type_def df_empty_def Let_def)
qed

text \<open>
  Claim C2, amended. \<open>detect_chart_type\<close> answers \<open>line\<close> for every table of two or more
  columns and more than 15 rows (so for the table of 20 rows with a text and a numeric
  column, temporal or not), \<open>histogram\<close> for a table with rows whose single column is
  numeric, and \<open>pie\<close> for a table of two columns, a category and a number, with at most
  six rows, when the category column is not taken for a time axis.
\<close>

theorem detect_chart_type_cases:
  "(columns df = x # y # rest \<and> 15 < nrows df \<longrightarrow> detect_chart_type E df = ''line'')
   \<and> (columns df = [c] \<and> is_numeric c \<and> 0 < nrows df \<longrightarrow>
        detect_chart_type E df = ''histogram'')
   \<and> (columns df = [x, y] \<and> \<not> is_numeric x \<and> is_numeric y \<and> cname x \<noteq> cname y
        \<and> 0 < nrows df \<and> nrows df \<le> 6 \<and> \<not> is_time E (astype_str E (cdata x)) \<longrightarrow>
        detect_chart_type E df = ''pie'')"
  using detect_chart_type_many_rows [of df x y rest E]
    detect_chart_type_single_numeric [of df c E]
    detect_chart_type_small_category [of df x y E]
  by blast

text \<open>
  The claim as stated fails: a text column and a numeric column over 20 rows never give
  \<open>bar\<close>, whatever the date parser says of the text.
\<close>

theorem detect_chart_type_twenty_rows_counterexample:
  "\<forall>E. detect_chart_type E
     \<lparr>columns = [\<lparr>cname = ''region'', cdata = ObjCol (replicate 20 (Some ''north''))\<rparr>,
                 \<lparr>cname = ''sales'', cdata = IntCol (replicate 20 7)\<rparr>],
      nrows = 20\<rparr> \<noteq> ''bar''"
  by (simp add: detect_chart_type_def df_empty_def Let_def)

lemma no_date_text:
  "\<not> is_time \<lparr>float_str = (\<lambda>r. ''0.0''), to_datetime_ok = (\<lambda>vs. False)\<rparr>
       [''north'', ''south'', ''east'', ''west'', ''centre'']"
  by (simp add: is_time_def time_patterns_def year_only_def year_month_def month_name_def
      is_digit_def code_def lower_def lower_char_def is_upper_def)

theorem detect_chart_type_cases_witness:
  "detect_chart_type \<lparr>float_str = (\<lambda>r. ''0.0''), to_datetime_ok = (\<lambda>vs. False)\<rparr>
     \<lparr>columns = [\<lparr>cname = ''region'', cdata = ObjCol (replicate 20 (Some ''north''))\<rparr>,
                 \<lparr>cname = ''sales'', cdata = IntCol (replicate 20 7)\<rparr>],
      nrows = 20\<rparr> = ''line''
   \<and> detect_chart_type \<lparr>float_str = (\<lambda>r. ''0.0''), to_datetime_ok = (\<lambda>vs. False)\<rparr>
     \<lparr>columns = [\<lparr>cname = ''sales'', cdata = IntCol [3, 1, 2]\<rparr>], nrows = 3\<rparr> = ''histogram''
   \<and> detect_chart_type \<lparr>float_str = (\<lambda>r. ''0.0''), to_datetime_ok = (\<lambda>vs. False)\<rparr>
     \<lparr>columns = [\<lparr>cname = ''region'',
                   cdata = ObjCol [Some ''north'', Some ''south'', Some ''east'', Some ''west'',
                                   Some ''centre'']\<rparr>,
                 \<lparr>cname = ''sales'', cdata = IntCol [5, 4, 3, 2, 1]\<rparr>],
      nrows = 5\<rparr> = ''pie''"
proof -
  let ?E = "\<lparr>float_str = (\<lambda>r. ''0.0''), to_datetime_ok = (\<lambda>vs. False)\<rparr>"
  let ?r20 = "\<lparr>cname = ''region'', cdata = ObjCol (replicate 20 (Some ''north''))\<rparr>"
  let ?s20 = "\<lparr>cname = ''sales'', cdata = IntCol (replicate 20 7)\<rparr>"
  let ?s3 = "\<lparr>cname = ''sales'', cdata = IntCol [3, 1, 2]\<rparr>"
  let ?r5 = "\<lparr>cname = ''region'',
               cdata = ObjCol [Some ''north'', Some ''south'', Some ''east'', Some ''west'',
                               Some ''centre'']\<rparr>"
  let ?s5 = "\<lparr>cname = ''sales'', cdata = IntCol [5, 4, 3, 2, 1]\<rparr>"
  have a: "detect_chart_type ?E \<lparr>columns = [?r20, ?s20], nrows = 20\<rparr> = ''line''"
    using detect_chart_type_cases
        [where df = "\<lparr>columns = [?r20, ?s20], nrows = 20\<rparr>" and x = ?r20 and y = ?s20
           and rest = "[]" and E = ?E]
    by simp
  have b: "detect_chart_type ?E \<lparr>columns = [?s3], nrows = 3\<rparr> = ''histogram''"
    using detect_chart_type_cases
        [where df = "\<lparr>columns = [?s3], nrows = 3\<rparr>" and c = ?s3 and E = ?E]
    by (simp add: is_numeric_def)
  have c: "detect_chart_type ?E \<lparr>columns = [?r5, ?s5], nrows = 5\<rparr> = ''pie''"
    using detect_chart_type_cases
        [where df = "\<lparr>columns = [?r5, ?s5], nrows = 5\<rparr>" and x = ?r5 and y = ?s5 and E = ?E]
      no_date_text
    by (simp add: is_numeric_def astype_str_def)
  from a b c show ?thesis by simp
qed

lemma build_figure_bar:
  assumes "columns df = x # y # rest"
  shows "build_figure df ''bar'' =
           Some (BarFig (cname x) (take 5 (if num_cols df \<noteq> [] then num_cols df else [cname y])))"
  using assms by (simp add: build_figure_def Let_def)

lemma build_figure_line:
  assumes "columns df = x # y # rest"
  shows "build_figure df ''line'' =
           (if num_cols df \<noteq> [] then Some (LineFig (cname x) (take 5 (num_cols df)))
            else Some (BarFig (cname x) [cname y]))"
  using assms by (simp add: build_figure_def Let_def Suc_le_eq)

text \<open>
  Claim C7, amended. For a line or bar chart on a table with at least two columns, the x
  axis is the first column and there are at most five y-series, without an error for
  more numeric columns; when the first column is not numeric, the series are the first
  five numeric columns in the table's order, or the second column alone when the table
  has no numeric column.
\<close>

theorem line_bar_roles:
  assumes "ct = ''line'' \<or> ct = ''bar''" and "columns df = x # y # rest"
  shows "\<exists>ys. (build_figure df ct = Some (LineFig (cname x) ys) \<or>
               build_figure df ct = Some (BarFig (cname x) ys))
           \<and> length ys \<le> 5
           \<and> (\<not> is_numeric x \<longrightarrow>
                 ys = (if num_cols df = [] then [cname y] else take 5 (num_cols df)))"
  using assms build_figure_bar [OF assms(2)] build_figure_line [OF assms(2)]
  by auto

text \<open>
  The claim as stated fails on a table without numeric columns: the bar chart plots the
  second column, which is not numeric.
\<close>

theorem line_bar_roles_counterexample:
  "build_figure
     \<lparr>columns = [\<lparr>cname = ''city'', cdata = ObjCol [Some ''Oslo'', Some ''Rome'']\<rparr>,
                 \<lparr>cname = ''grade'', cdata = ObjCol [Some ''A'', Some ''B'']\<rparr>],
      nrows = 2\<rparr> ''bar''
   = Some (BarFig ''city'' [''grade''])
   \<and> num_cols
     \<lparr>columns = [\<lparr>cname = ''city'', cdata = ObjCol [Some ''Oslo'', Some ''Rome'']\<rparr>,
                 \<lparr>cname = ''grade'', cdata = ObjCol [Some ''A'', Some ''B'']\<rparr>],
      nrows = 2\<rparr> = []"
  by (simp add: build_figure_def num_cols_def select_number_def)

text \<open>
  When the first column is numeric it stays among the series of a line chart: the two
  arms of the conditional that chooses the series are the same.
\<close>

lemma line_chart_keeps_numeric_x:
  "build_figure
     \<lparr>columns = [\<lparr>cname = ''year'', cdata = IntCol [2020, 2021]\<rparr>,
                 \<lparr>cname = ''sales'', cdata = IntCol [5, 6]\<rparr>],
      nrows = 2\<rparr> ''line''
   = Some (LineFig ''year'' [''year'', ''sales''])"
  by (simp add: build_figure_def num_cols_def select_number_def)

theorem line_bar_roles_witness:
  "\<exists>ys. (build_figure
            \<lparr>columns = [\<lparr>cname = ''month'', cdata = ObjCol [Some ''jan'', Some ''feb'']\<rparr>,
                        \<lparr>cname = ''a'', cdata = IntCol [1, 2]\<rparr>, \<lparr>cname = ''b'', cdata = IntCol [1, 2]\<rparr>,
                        \<lparr>cname = ''c'', cdata = IntCol [1, 2]\<rparr>, \<lparr>cname = ''d'', cdata = IntCol [1, 2]\<rparr>,
                        \<lparr>cname = ''e'', cdata = IntCol [1, 2]\<rparr>, \<lparr>cname = ''f'', cdata = IntCol [1, 2]\<rparr>],
             nrows = 2\<rparr> ''line'' = Some (LineFig ''month'' ys)
          \<or> build_figure
            \<lparr>columns = [\<lparr>cname = ''month'', cdata = ObjCol [Some ''jan'', Some ''feb'']\<rparr>,
                        \<lparr>cname = ''a'', cdata = IntCol [1, 2]\<rparr>, \<lparr>cname = ''b'', cdata = IntCol [1, 2]\<rparr>,
                        \<lparr>cname = ''c'', cdata = IntCol [1, 2]\<rparr>, \<lparr>cname = ''d'', cdata = IntCol [1, 2]\<rparr>,
                        \<lparr>cname = ''e'', cdata = IntCol [1, 2]\<rparr>, \<lparr>cname = ''f'', cdata = IntCol [1, 2]\<rparr>],
             nrows = 2\<rparr> ''line'' = Some (BarFig ''month'' ys))
        \<and> ys = [''a'', ''b'', ''c'', ''d'', ''e'']"
proof -
  let ?m = "\<lparr>cname = ''month'', cdata = ObjCol [Some ''jan'', Some ''feb'']\<rparr>"
  let ?a = "\<lparr>cname = ''a'', cdata = IntCol [1, 2]\<rparr>"
  let ?rest = "[\<lparr>cname = ''b'', cdata = IntCol [1, 2]\<rparr>,
                \<lparr>cname = ''c'', cdata = IntCol [1, 2]\<rparr>, \<lparr>cname = ''d'', cdata = IntCol [1, 2]\<rparr>,
                \<lparr>cname = ''e'', cdata = IntCol [1, 2]\<rparr>, \<lparr>cname = ''f'', cdata = IntCol [1, 2]\<rparr>]"
  let ?df = "\<lparr>columns = ?m # ?a # ?rest, nrows = 2\<rparr>"
  have nc: "num_cols ?df = [''a'', ''b'', ''c'', ''d'', ''e'', ''f'']"
    by (simp add: num_cols_def select_number_def)
  have nn: "\<not> is_numeric ?m" by (simp add: is_numeric_def)
  from line_bar_roles [where ct = "''line''" and df = ?df and x = ?m and y = ?a and rest = ?rest]
  obtain ys where ys: "build_figure ?df ''line'' = Some (LineFig (cname ?m) ys) \<or>
      build_figure ?df ''line'' = Some (BarFig (cname ?m) ys)"
    "\<not> is_numeric ?m \<longrightarrow> ys = (if num_cols ?df = [] then [cname ?a] else take 5 (num_cols ?df))"
    by auto
  from ys(2) nn nc have "ys = [''a'', ''b'', ''c'', ''d'', ''e'']" by simp
  with ys(1) show ?thesis by auto
qed

section \<open>Properties of the forecaster\<close>

lemma dropna_all_missing:
  "list_all (\<lambda>x. x = None) xs \<Longrightarrow> dropna xs = []"
  by (induction xs) (auto simp: dropna_def)

lemma dropna_str_all_missing:
  assumes "list_all (\<lambda>present. \<not> present) (notna s)"
  shows "dropna_str E s = []"
proof (cases s)
  case (IntCol xs)
  with assms have "xs = []" by (cases xs) auto
  with IntCol show ?thesis by (simp add: dropna_str_def dropna_def)
next
  case (FloatCol xs)
  with assms have "list_all (\<lambda>x. x = None) (map (map_option (float_str E)) xs)"
    by (simp add: list_all_iff)
  with FloatCol show ?thesis by (simp add: dropna_str_def dropna_all_missing)
next
  case (ObjCol xs)
  with assms have "list_all (\<lambda>x. x = None) xs" by (simp add: list_all_iff)
  with ObjCol show ?thesis by (simp add: dropna_str_def dropna_all_missing)
qed

text \<open>
  Claim C10. When the first column of a table has no non-missing value, its sample is
  empty, zero matches reach 70 percent of zero, and \<open>detect_time_column\<close> returns that
  column, before any later column and before the search by name.
\<close>

theorem all_missing_first_column_is_time_column:
  assumes "columns df = c # rest" and "list_all (\<lambda>present. \<not> present) (notna (cdata c))"
  shows "detect_time_column E df = Some (cname c)"
  using assms(1) dropna_str_all_missing [OF assms(2), of E]
  by (simp add: detect_time_column_def)

theorem all_missing_first_column_is_time_column_witness:
  "detect_time_column \<lparr>float_str = (\<lambda>r. ''0.0''), to_datetime_ok = (\<lambda>vs. False)\<rparr>
     \<lparr>columns = [\<lparr>cname = ''discount'', cdata = FloatCol [None, None, None]\<rparr>,
                 \<lparr>cname = ''order_date'',
                  cdata = ObjCol [Some ''2024-01-05'', Some ''2024-02-05'', Some ''2024-03-05'']\<rparr>],
      nrows = 3\<rparr> = Some ''discount''"
  using all_missing_first_column_is_time_column
    [where df = "\<lparr>columns = [\<lparr>cname = ''discount'', cdata = FloatCol [None, None, None]\<rparr>,
                 \<lparr>cname = ''order_date'',
                  cdata = ObjCol [Some ''2024-01-05'', Some ''2024-02-05'', Some ''2024-03-05'']\<rparr>],
      nrows = 3\<rparr>" and c = "\<lparr>cname = ''discount'', cdata = FloatCol [None, None, None]\<rparr>"]
  by simp

lemma scan_time_columns_name:
  "scan_time_columns E cols = Some n \<Longrightarrow> \<exists>c \<in> set cols. cname c = n"
  by (induction cols) (auto simp: Let_def split: if_splits)

lemma detect_time_column_name:
  assumes "detect_time_column E df = Some n"
  shows "\<exists>c \<in> set (columns df). cname c = n"
proof (cases "scan_time_columns E (columns df)")
  case None
  with assms obtain c where
    "find (\<lambda>col. list_ex (\<lambda>kw. contains (lower (cname col)) kw) time_keywords) (columns df) = Some c"
    "cname c = n"
    by (auto simp: detect_time_column_def)
  then show ?thesis by (auto simp: find_Some_iff)
next
  case (Some m)
  with assms have "m = n" by (simp add: detect_time_column_def)
  with Some scan_time_columns_name show ?thesis by blast
qed

lemma select_number_entry:
  "(n, cells) \<in> set (select_number df) \<longleftrightarrow>
     (\<exists>c \<in> set (columns df). cname c = n \<and> numeric_cells (cdata c) = Some cells)"
  by (auto simp: select_number_def List.map_filter_def image_iff)

lemma num_cols_names: "n \<in> set (num_cols df) \<Longrightarrow> \<exists>c \<in> set (columns df). cname c = n"
  by (auto simp: num_cols_def select_number_entry)

lemma detect_target_column_name:
  assumes "detect_target_column df q = Some n"
  shows "\<exists>c \<in> set (columns df). cname c = n"
proof -
  have "n \<in> set (num_cols df)"
    using assms
    by (auto simp: detect_target_column_def Let_def find_Some_iff
        split: if_splits option.splits)
  then show ?thesis by (rule num_cols_names)
qed

lemma lookup_col_finds:
  assumes "\<exists>c \<in> set (columns df). cname c = n"
  shows "\<exists>c. lookup_col df n = Some c \<and> c \<in> set (columns df)"
proof (cases "lookup_col df n")
  case None
  with assms show ?thesis by (auto simp: lookup_col_def find_None_iff)
next
  case (Some c)
  then show ?thesis by (auto simp: lookup_col_def find_Some_iff)
qed

lemma length_notna: "length (notna s) = series_len s"
  by (cases s) simp_all

lemma length_paired_rows: "length (paired_rows t y) \<le> series_len t"
proof -
  have "length (paired_rows t y) \<le> length [0..<min (series_len t) (series_len y)]"
    unfolding paired_rows_def by (rule length_filter_le)
  then show ?thesis by simp
qed

text \<open>
  Claim C5, amended. For a table with fewer than 3 rows \<open>predict\<close> fails: with the
  missing time column when no time column is detected, else with the missing numeric
  column when the table has none, else with the insufficient data failure.
\<close>

theorem predict_few_rows:
  assumes "wf_df df" and "nrows df < 3"
  shows "predict E df q =
           Inl (if detect_time_column E df = None then NoTimeColumn
                else if detect_target_column df q = None then NoNumericColumn
                else NotEnoughData)"
proof (cases "detect_time_column E df")
  case None
  then show ?thesis by (simp add: predict_def)
next
  case t: (Some time_col)
  show ?thesis
  proof (cases "detect_target_column df q")
    case None
    with t show ?thesis by (simp add: predict_def)
  next
    case g: (Some target_col)
    from lookup_col_finds [OF detect_time_column_name [OF t]] obtain tc where
      tc: "lookup_col df time_col = Some tc" "tc \<in> set (columns df)" by blast
    from lookup_col_finds [OF detect_target_column_name [OF g]] obtain yc where
      yc: "lookup_col df target_col = Some yc" by blast
    from assms(1) tc(2) have "series_len (cdata tc) = nrows df"
      by (auto simp: wf_df_def list_all_iff)
    with length_paired_rows [of "cdata tc" "cdata yc"] assms(2)
    have "length (paired_rows (cdata tc) (cdata yc)) < 3" by simp
    with t g tc yc show ?thesis by (simp add: predict_def Let_def)
  qed
qed

text \<open>
  The claim as stated fails: two rows without a time column give the failure of the
  missing time column, whatever the question.
\<close>

theorem predict_few_rows_counterexample:
  "\<forall>E q. predict E
     \<lparr>columns = [\<lparr>cname = ''product'', cdata = ObjCol [Some ''pen'', Some ''ink'']\<rparr>,
                 \<lparr>cname = ''sales'', cdata = IntCol [4, 9]\<rparr>],
      nrows = 2\<rparr> q = Inl NoTimeColumn"
proof (intro allI)
  fix E q
  show "predict E
     \<lparr>columns = [\<lparr>cname = ''product'', cdata = ObjCol [Some ''pen'', Some ''ink'']\<rparr>,
                 \<lparr>cname = ''sales'', cdata = IntCol [4, 9]\<rparr>],
      nrows = 2\<rparr> q = Inl NoTimeColumn"
    by code_simp
qed

theorem predict_few_rows_witness:
  "predict \<lparr>float_str = (\<lambda>r. ''0.0''), to_datetime_ok = (\<lambda>vs. False)\<rparr>
     \<lparr>columns = [\<lparr>cname = ''month'', cdata = ObjCol [Some ''2024-01'', Some ''2024-02'']\<rparr>,
                 \<lparr>cname = ''sales'', cdata = IntCol [4, 9]\<rparr>],
      nrows = 2\<rparr> ''predict sales'' = Inl NotEnoughData"
proof -
  let ?E = "\<lparr>float_str = (\<lambda>r. ''0.0''), to_datetime_ok = (\<lambda>vs. False)\<rparr>"
  let ?df = "\<lparr>columns = [\<lparr>cname = ''month'', cdata = ObjCol [Some ''2024-01'', Some ''2024-02'']\<rparr>,
                 \<lparr>cname = ''sales'', cdata = IntCol [4, 9]\<rparr>],
      nrows = 2\<rparr>"
  have wf: "wf_df ?df" by (simp add: wf_df_def)
  have n: "nrows ?df < 3" by simp
  have t: "detect_time_column ?E ?df = Some ''month''" by code_simp
  have g: "detect_target_column ?df ''predict sales'' = Some ''sales''" by code_simp
  from predict_few_rows [OF wf n, of ?E "''predict sales''"] t g show ?thesis by simp
qed

section \<open>Properties of the fitted line\<close>











lemma time_monthly_sales: "detect_time_column plain_externals monthly_sales = Some ''month''"
  by code_simp

lemma target_monthly_sales: "detect_target_column monthly_sales ''predict sales'' = Some ''sales''"
  by code_simp

lemma fit_line_example: "fit_line [10, 20, 30, 40] = (10, 10)"
  by (simp add: fit_line_def Let_def upt_rec numeral_eq_Suc power2_eq_square)

lemma title_sales: "title (replace_underscores ''sales'') = ''Sales''"
  by code_simp

lemma py_round_examples: "py_round 50 2 = 50" "py_round 1 4 = 1"
  by (simp_all add: py_round_def round_half_even_def)

lemma predict_monthly_sales:
  "predict plain_externals monthly_sales ''predict sales'' =
     Inr \<lparr>predicted_value = 50, metric = ''Sales'', confidence = 1, trend = ''upward'',
          message = Forecast ''sales'' 50 ''upward'' 1\<rparr>"
proof -
  have l1: "lookup_col monthly_sales ''month'' = Some \<lparr>cname = ''month'',
      cdata = ObjCol [Some ''2024-01'', Some ''2024-02'', Some ''2024-03'', Some ''2024-04'']\<rparr>"
    and l2: "lookup_col monthly_sales ''sales'' = Some \<lparr>cname = ''sales'', cdata = IntCol [10, 20, 30, 40]\<rparr>"
    by (simp_all add: lookup_col_def monthly_sales_def)
  have rows: "paired_rows (ObjCol [Some ''2024-01'', Some ''2024-02'', Some ''2024-03'', Some ''2024-04''])
      (IntCol [10, 20, 30, 40]) = [0, 1, 2, 3]"
    by code_simp
  have y: "dropna [Some 10, Some 20, Some 30, Some (40::real)] = [10, 20, 30, 40]"
    by (simp add: dropna_def)
  have ru: "replace_underscores ''sales'' = ''sales''" by (simp add: replace_underscores_def)
  show ?thesis
    using title_sales
    by (simp add: predict_def time_monthly_sales target_monthly_sales l1 l2 rows y
        fit_line_example model_predict_def r2_score_def py_round_examples ru Let_def
        power2_eq_square)
qed



section \<open>Properties of the pipeline\<close>

lemma analyze_data_reaches_step_6:
  assumes "nl_to_sql S req = Inr query" and "validate_sql query"
    and "run_sql S (db_path req) query = Inr rows"
  shows "analyze_data E S req =
           Inr (step_6 E S req
                  (steps_3_to_5 E S
                     \<lparr> sql_query = query, table_result = rows, chart_base64 = [], stats = [],
                       insights = [], prediction = NoPrediction \<rparr>))"
  using assms by (simp add: analyze_data_def execute_query_def)

lemma steps_3_to_5_insights:
  "insights (steps_3_to_5 E S
       \<lparr> sql_query = query, table_result = rows, chart_base64 = [], stats = [],
         insights = [], prediction = NoPrediction \<rparr>)
   = (if 0 < nrows rows then generate_insights rows (compute_stats rows) else [])"
  by (simp add: steps_3_to_5_def Let_def)

text \<open>
  Claim C6, amended. When the question names a prediction keyword, the query was
  translated, validated and run, and the full table was loaded, \<open>predict\<close> runs on the
  full table (not on the rows of the query) and its result is the \<open>prediction\<close> of the
  response; when it fails, the insights are those of the query result alone, and when it
  succeeds with a predicted value that is not zero, its message is appended to them.
\<close>

theorem forecast_on_full_table:
  assumes "nl_to_sql S req = Inr query" and "validate_sql query"
    and "run_sql S (db_path req) query = Inr rows"
    and "wants_prediction (question req)"
    and "read_full S (db_path req) = Inr full_df"
  shows "\<exists>r. analyze_data E S req = Inr r
           \<and> prediction r = Predicted (predict E full_df (question req))
           \<and> (case predict E full_df (question req) of
                 Inl e \<Rightarrow>
                   insights r =
                     (if 0 < nrows rows then generate_insights rows (compute_stats rows) else [])
               | Inr f \<Rightarrow>
                   predicted_value f \<noteq> 0 \<longrightarrow>
                   insights r =
                     (if 0 < nrows rows then generate_insights rows (compute_stats rows) else [])
                     @ [message f])"
proof -
  let ?r0 = "steps_3_to_5 E S
       \<lparr> sql_query = query, table_result = rows, chart_base64 = [], stats = [],
         insights = [], prediction = NoPrediction \<rparr>"
  have a: "analyze_data E S req = Inr (step_6 E S req ?r0)"
    by (rule analyze_data_reaches_step_6 [OF assms(1-3)])
  have i: "insights ?r0 =
      (if 0 < nrows rows then generate_insights rows (compute_stats rows) else [])"
    by (rule steps_3_to_5_insights)
  show ?thesis
  proof (cases "predict E full_df (question req)")
    case (Inl e)
    with assms(4,5) i have "prediction (step_6 E S req ?r0) = Predicted (Inl e)"
      "insights (step_6 E S req ?r0) =
         (if 0 < nrows rows then generate_insights rows (compute_stats rows) else [])"
      by (simp_all add: step_6_def Let_def)
    with a Inl show ?thesis by simp
  next
    case (Inr f)
    with assms(4,5) i have "prediction (step_6 E S req ?r0) = Predicted (Inr f)"
      "predicted_value f \<noteq> 0 \<longrightarrow> insights (step_6 E S req ?r0) =
         (if 0 < nrows rows then generate_insights rows (compute_stats rows) else []) @ [message f]"
      by (simp_all add: step_6_def Let_def)
    with a Inr show ?thesis by simp
  qed
qed

lemma wants_prediction_example: "wants_prediction (question example_request)"
  by code_simp

lemma predict_product_sales: "predict E product_sales q = Inl NoTimeColumn"
  by code_simp

lemma insights_one_row: "generate_insights one_row (compute_stats one_row) = [DataPoints 1 1]"
  by (simp add: generate_insights_def df_empty_def non_numeric_cols_def select_number_def
      is_numeric_def detect_trends_def compute_stats_def one_row_def)

text \<open>
  The claim as stated fails: the question asks for a prediction, the full table has no
  time column, and no message is appended to the insights.
\<close>

theorem forecast_on_full_table_counterexample:
  "\<exists>r. analyze_data plain_externals (example_services one_row product_sales) example_request = Inr r
       \<and> prediction r = Predicted (Inl NoTimeColumn)
       \<and> insights r = [DataPoints 1 1]"
proof -
  let ?S = "example_services one_row product_sales"
  let ?r0 = "\<lparr> sql_query = ''SELECT * FROM data'', table_result = one_row, chart_base64 = [],
       stats = [], insights = [], prediction = NoPrediction \<rparr>"
  have a: "analyze_data plain_externals ?S example_request =
      Inr (step_6 plain_externals ?S example_request (steps_3_to_5 plain_externals ?S ?r0))"
    by (rule analyze_data_reaches_step_6) (simp_all add: example_services_def select_all_is_safe)
  have i: "insights (steps_3_to_5 plain_externals ?S ?r0) = [DataPoints 1 1]"
    by (simp add: steps_3_to_5_insights insights_one_row) (simp add: one_row_def)
  have rf: "read_full ?S (db_path example_request) = Inr product_sales"
    by (simp add: example_services_def)
  have "prediction (step_6 plain_externals ?S example_request (steps_3_to_5 plain_externals ?S ?r0))
          = Predicted (Inl NoTimeColumn)"
    and "insights (step_6 plain_externals ?S example_request (steps_3_to_5 plain_externals ?S ?r0))
          = [DataPoints 1 1]"
    using wants_prediction_example rf i
    by (simp_all add: step_6_def predict_product_sales)
  with a show ?thesis by simp
qed

theorem forecast_on_full_table_witness:
  "\<exists>r. analyze_data plain_externals (example_services one_row monthly_sales) example_request = Inr r
       \<and> prediction r = Predicted (predict plain_externals monthly_sales ''predict sales'')
       \<and> insights r = [DataPoints 1 1, Forecast ''sales'' 50 ''upward'' 1]"
proof -
  let ?S = "example_services one_row monthly_sales"
  let ?f = "\<lparr>predicted_value = 50, metric = ''Sales'', confidence = 1, trend = ''upward'',
            message = Forecast ''sales'' 50 ''upward'' 1\<rparr>"
  have q: "question example_request = ''predict sales''" by (simp add: example_request_def)
  have h1: "nl_to_sql ?S example_request = Inr ''SELECT * FROM data''"
    and h3: "run_sql ?S (db_path example_request) ''SELECT * FROM data'' = Inr one_row"
    and h5: "read_full ?S (db_path example_request) = Inr monthly_sales"
    by (simp_all add: example_services_def)
  from forecast_on_full_table [OF h1 select_all_is_safe h3 wants_prediction_example h5,
      of plain_externals]
  obtain r where r: "analyze_data plain_externals ?S example_request = Inr r"
    "prediction r = Predicted (predict plain_externals monthly_sales (question example_request))"
    "case predict plain_externals monthly_sales (question example_request) of
       Inl e \<Rightarrow> insights r =
           (if 0 < nrows one_row then generate_insights one_row (compute_stats one_row) else [])
     | Inr f \<Rightarrow> predicted_value f \<noteq> 0 \<longrightarrow>
         insights r =
           (if 0 < nrows one_row then generate_insights one_row (compute_stats one_row) else [])
           @ [message f]"
    by blast
  have n: "0 < nrows one_row" by (simp add: one_row_def)
  from r(3) have "insights r = [DataPoints 1 1, Forecast ''sales'' 50 ''upward'' 1]"
    by (simp add: q predict_monthly_sales insights_one_row n)
  with r(1,2) q show ?thesis by simp
qed

end
